theory Spec2Isabelle
  imports Complex_Main
begin

section \<open>Link queue (congestion.py, class LinkQueue)\<close>

text \<open>
  Simulation times are Python floats; they are modelled as reals, so the arithmetic on
  them is exact. Counters and capacities are Python integers, modelled as \<open>int\<close>.
  The packet held by a queue item is a reference the queue never inspects, so the
  queue is polymorphic in it.
\<close>

datatype DropPolicy = TAIL_DROP | HEAD_DROP | RANDOM_DROP

record 'p QueueItem =
  packet :: 'p
  enqueue_time :: real

record 'p LinkQueue =
  link_id :: string
  capacity :: int
  drop_policy :: DropPolicy
  queue :: "'p QueueItem list"
  packets_enqueued :: int
  packets_dequeued :: int
  packets_dropped :: int
  total_queue_delay :: real

text \<open>The dataclass constructor with its field defaults.\<close>

definition LinkQueue_init :: "string \<Rightarrow> int \<Rightarrow> DropPolicy \<Rightarrow> 'p LinkQueue" where
  "LinkQueue_init lid cap pol =
     \<lparr> link_id = lid, capacity = cap, drop_policy = pol, queue = [],
       packets_enqueued = 0, packets_dequeued = 0, packets_dropped = 0,
       total_queue_delay = 0 \<rparr>"

text \<open>
  \<open>random.randint(a, b)\<close> returns some integer of the closed interval from \<open>a\<close> to
  \<open>b\<close>. The generator's draw is an input \<open>rnd\<close> of the model, folded into that interval,
  so that every index of the interval can be drawn and none outside it.
\<close>

definition randint :: "nat \<Rightarrow> int \<Rightarrow> int \<Rightarrow> int" where
  "randint rnd a b = a + int rnd mod (b - a + 1)"

text \<open>\<open>queue_list.pop(idx)\<close> for an index within the list.\<close>

definition pop_at :: "nat \<Rightarrow> 'a list \<Rightarrow> 'a list" where
  "pop_at idx xs = take idx xs @ drop (Suc idx) xs"

definition enqueue :: "nat \<Rightarrow> 'p LinkQueue \<Rightarrow> 'p \<Rightarrow> real \<Rightarrow> bool \<times> 'p LinkQueue" where
  "enqueue rnd q pkt current_time =
     (let item = \<lparr> packet = pkt, enqueue_time = current_time \<rparr>;
          q1 = q\<lparr> packets_enqueued := packets_enqueued q + 1 \<rparr>
      in if int (length (queue q1)) < capacity q1
         then (True, q1\<lparr> queue := queue q1 @ [item] \<rparr>)
         else
           (let q2 = q1\<lparr> packets_dropped := packets_dropped q1 + 1 \<rparr>
            in case drop_policy q2 of
                 TAIL_DROP \<Rightarrow> (False, q2)
               | HEAD_DROP \<Rightarrow>
                   (True, if queue q2 \<noteq> []
                          then q2\<lparr> queue := tl (queue q2) @ [item] \<rparr>
                          else q2)
               | RANDOM_DROP \<Rightarrow>
                   (True, if queue q2 \<noteq> []
                          then (let idx = randint rnd 0 (int (length (queue q2)) - 1)
                                in q2\<lparr> queue := pop_at (nat idx) (queue q2) @ [item] \<rparr>)
                          else q2)))"

definition dequeue :: "'p LinkQueue \<Rightarrow> real \<Rightarrow> ('p \<times> real) option \<times> 'p LinkQueue" where
  "dequeue q current_time =
     (case queue q of
        [] \<Rightarrow> (None, q)
      | item # rest \<Rightarrow>
          (let queuing_delay = current_time - enqueue_time item
           in (Some (packet item, queuing_delay),
               q\<lparr> queue := rest,
                  total_queue_delay := total_queue_delay q + queuing_delay,
                  packets_dequeued := packets_dequeued q + 1 \<rparr>)))"

definition get_size :: "'p LinkQueue \<Rightarrow> int" where
  "get_size q = int (length (queue q))"

definition get_utilization :: "'p LinkQueue \<Rightarrow> real" where
  "get_utilization q =
     (if capacity q = 0 then 0
      else real (length (queue q)) / real_of_int (capacity q))"

definition is_full :: "'p LinkQueue \<Rightarrow> bool" where
  "is_full q = (int (length (queue q)) \<ge> capacity q)"

text \<open>
  A history of a queue: the calls made on it, in order. \<open>run_trace\<close> lists the queue
  before the first call and after each call, \<open>run_ops\<close> gives the last of them.
\<close>

datatype 'p queue_op = Enqueue 'p real nat | Dequeue real

fun apply_op :: "'p LinkQueue \<Rightarrow> 'p queue_op \<Rightarrow> 'p LinkQueue" where
  "apply_op q (Enqueue pkt t rnd) = snd (enqueue rnd q pkt t)"
| "apply_op q (Dequeue t) = snd (dequeue q t)"

fun run_ops :: "'p LinkQueue \<Rightarrow> 'p queue_op list \<Rightarrow> 'p LinkQueue" where
  "run_ops q [] = q"
| "run_ops q (x # xs) = run_ops (apply_op q x) xs"

fun run_trace :: "'p LinkQueue \<Rightarrow> 'p queue_op list \<Rightarrow> 'p LinkQueue list" where
  "run_trace q [] = [q]"
| "run_trace q (x # xs) = q # run_trace (apply_op q x) xs"


section \<open>Packets (packet.py, class Packet)\<close>

datatype PacketState = QUEUED | IN_TRANSIT | DELIVERED | DROPPED

text \<open>
  \<open>path_index\<close> and \<open>current_link_index\<close> start at 0 and the code only ever
  increments the first and sets the second to its predecessor, so both are naturals.
\<close>

record Packet =
  pkt_id :: string
  source_node_id :: string
  destination_node_id :: string
  creation_time :: real
  sent_time :: real
  delivery_time :: real
  pkt_size :: int
  state :: PacketState
  path :: "string list"
  path_index :: nat
  current_node_id :: string
  current_link_index :: nat
  link_start_time :: real
  link_latency :: real

text \<open>
  The constructor call of \<open>create_packet\<close>: the keyword arguments it passes, the
  defaults of the other fields, and \<open>__post_init__\<close>.
\<close>

definition Packet_init ::
  "string \<Rightarrow> string \<Rightarrow> string \<Rightarrow> real \<Rightarrow> real \<Rightarrow> int \<Rightarrow> string list \<Rightarrow> PacketState \<Rightarrow> Packet" where
  "Packet_init pid src dst created sent sz pth st =
     \<lparr> pkt_id = pid, source_node_id = src, destination_node_id = dst,
       creation_time = created, sent_time = sent, delivery_time = 0,
       pkt_size = sz, state = st, path = pth, path_index = 0,
       current_node_id = (case pth of [] \<Rightarrow> src | n # _ \<Rightarrow> n),
       current_link_index = 0, link_start_time = 0, link_latency = 0 \<rparr>"

definition get_next_node :: "Packet \<Rightarrow> string option" where
  "get_next_node p =
     (if path_index p + 1 < length (path p) then Some (path p ! (path_index p + 1))
      else None)"

definition move_to_next_link :: "Packet \<Rightarrow> real \<Rightarrow> bool \<times> Packet" where
  "move_to_next_link p current_time =
     (if path_index p + 1 \<ge> length (path p)
      then (True, p\<lparr> state := DELIVERED, delivery_time := current_time \<rparr>)
      else
        (let p1 = p\<lparr> path_index := path_index p + 1 \<rparr>;
             p2 = p1\<lparr> current_node_id := path p1 ! path_index p1 \<rparr>;
             p3 = p2\<lparr> current_link_index := path_index p2 - 1 \<rparr>;
             p4 = p3\<lparr> link_start_time := current_time \<rparr>;
             p5 = p4\<lparr> state := IN_TRANSIT \<rparr>
         in if path_index p5 \<ge> length (path p5) - 1
            then (True, p5\<lparr> state := DELIVERED, delivery_time := current_time \<rparr>)
            else (False, p5)))"

definition mark_delivered :: "Packet \<Rightarrow> real \<Rightarrow> Packet" where
  "mark_delivered p t = p\<lparr> state := DELIVERED, delivery_time := t \<rparr>"

definition mark_dropped :: "Packet \<Rightarrow> Packet" where
  "mark_dropped p = p\<lparr> state := DROPPED \<rparr>"

section \<open>Router (routing/router.py, class DijkstraRouter)\<close>

text \<open>
  The exceptions the code raises or lets through. \<open>NetworkXNoPath\<close>, \<open>NodeNotFound\<close>
  and \<open>NetworkXError\<close> are the library's; none of them is a subclass of another.
\<close>

datatype error =
  ValueError | KeyError | ZeroDivisionError | NetworkXNoPath | NodeNotFound | NetworkXError

text \<open>
  The attribute dictionary of an edge. \<open>NetworkManager\<close> stores the keys
  \<open>weight\<close>, \<open>bandwidth\<close> and \<open>link_id\<close>; a key may be absent.
\<close>

record EdgeData =
  weight :: "real option"
  bandwidth :: "real option"
  edge_link_id :: "string option"

text \<open>
  An undirected \<open>nx.Graph\<close>: its node set and its edges with their attributes.
  \<open>get_edge_data\<close> finds an edge by either orientation and gives \<open>None\<close> when there
  is none.
\<close>

record Graph =
  g_nodes :: "string set"
  g_edges :: "((string \<times> string) \<times> EdgeData) list"

definition get_edge_data :: "Graph \<Rightarrow> string \<Rightarrow> string \<Rightarrow> EdgeData option" where
  "get_edge_data g a b =
     (case find (\<lambda>(e, d). e = (a, b) \<or> e = (b, a)) (g_edges g) of
        None \<Rightarrow> None
      | Some (e, d) \<Rightarrow> Some d)"

text \<open>The pairs \<open>(path[i], path[i + 1])\<close> for \<open>i\<close> in \<open>range(len(path) - 1)\<close>.\<close>

definition hops :: "string list \<Rightarrow> (string \<times> string) list" where
  "hops pth = zip pth (tl pth)"

definition get_path_cost :: "Graph \<Rightarrow> string list \<Rightarrow> real" where
  "get_path_cost g pth =
     (if length pth < 2 then 0
      else fold (\<lambda>(node_a, node_b) total_cost.
                   case get_edge_data g node_a node_b of
                     None \<Rightarrow> total_cost
                   | Some edge_data \<Rightarrow>
                       (case weight edge_data of
                          None \<Rightarrow> total_cost
                        | Some w \<Rightarrow> total_cost + w))
                (hops pth) 0)"

text \<open>
  The running minimum starts at \<open>float('inf')\<close>, which is \<open>None\<close> here: no bandwidth
  seen yet.
\<close>

definition get_bottleneck_bandwidth :: "Graph \<Rightarrow> string list \<Rightarrow> real" where
  "get_bottleneck_bandwidth g pth =
     (if length pth < 2 then 0
      else
        (case fold (\<lambda>(node_a, node_b) min_bandwidth.
                      case get_edge_data g node_a node_b of
                        None \<Rightarrow> min_bandwidth
                      | Some edge_data \<Rightarrow>
                          (case bandwidth edge_data of
                             None \<Rightarrow> min_bandwidth
                           | Some bw \<Rightarrow>
                               (case min_bandwidth of
                                  None \<Rightarrow> Some bw
                                | Some m \<Rightarrow> Some (min m bw))))
                   (hops pth) None of
           None \<Rightarrow> 0
         | Some m \<Rightarrow> m))"


section \<open>Topology (main.py, classes Node, Link and NetworkManager)\<close>

text \<open>
  Of each class the fields that the routing, queueing and packet code reads or writes.
  A link names its end nodes by their identifiers.
\<close>

record Node =
  n_id :: string
  n_label :: string
  n_x :: real
  n_y :: real

datatype LinkColor =
  LINK_COLOR_DEFAULT | LINK_COLOR_NORMAL | LINK_COLOR_CONGESTED | LINK_COLOR_CRITICAL

record Link =
  l_id :: string
  l_node_a :: string
  l_node_b :: string
  l_latency :: real
  l_bandwidth :: real
  l_queue_size :: int
  l_current_queue :: int
  l_color :: LinkColor

definition update_queue_color :: "Link \<Rightarrow> Link" where
  "update_queue_color l =
     (if l_queue_size l = 0 then l\<lparr> l_color := LINK_COLOR_DEFAULT \<rparr>
      else
        (let utilization = real_of_int (l_current_queue l) / real_of_int (l_queue_size l)
         in if utilization \<ge> 9 / 10 then l\<lparr> l_color := LINK_COLOR_CRITICAL \<rparr>
            else if utilization \<ge> 1 / 2 then l\<lparr> l_color := LINK_COLOR_CONGESTED \<rparr>
            else l\<lparr> l_color := LINK_COLOR_NORMAL \<rparr>))"

text \<open>
  The dictionary \<open>links\<close> is searched in insertion order, so it is an association list
  from link identifiers to links; \<open>nodes\<close> is only looked up by key.
\<close>

record NetworkManager =
  nodes :: "string \<rightharpoonup> Node"
  links :: "(string \<times> Link) list"
  graph :: Graph

definition get_link_by_nodes :: "NetworkManager \<Rightarrow> string \<Rightarrow> string \<Rightarrow> Link option" where
  "get_link_by_nodes nm node_a_id node_b_id =
     find (\<lambda>link. (l_node_a link = node_a_id \<and> l_node_b link = node_b_id) \<or>
                   (l_node_a link = node_b_id \<and> l_node_b link = node_a_id))
          (map snd (links nm))"

text \<open>
  A link object is shared between the dictionary and whoever looked it up. A method that
  changes the object it was handed therefore changes the dictionary's entry of that
  identifier.
\<close>

definition store_link :: "Link \<Rightarrow> NetworkManager \<Rightarrow> NetworkManager" where
  "store_link link nm =
     nm\<lparr> links := map (\<lambda>(k, v). if k = l_id link then (k, link) else (k, v)) (links nm) \<rparr>"

section \<open>Path information and shortest paths (routing/router.py)\<close>

text \<open>The dictionary returned by \<open>get_path_info\<close>; its links are held by identifier.\<close>

record PathDict =
  pd_path_nodes :: "string list"
  pd_hop_count :: int
  pd_total_latency :: real
  pd_bottleneck_bandwidth :: real
  pd_throughput :: real
  pd_links :: "string list"

definition get_path_info :: "Graph \<Rightarrow> string list \<Rightarrow> NetworkManager option \<Rightarrow> PathDict" where
  "get_path_info g pth network_manager =
     (if length pth < 2
      then \<lparr> pd_path_nodes = pth, pd_hop_count = 0, pd_total_latency = 0,
             pd_bottleneck_bandwidth = 0, pd_throughput = 0, pd_links = [] \<rparr>
      else
        (let total_latency = get_path_cost g pth;
             bottleneck_bw = get_bottleneck_bandwidth g pth;
             hop_count = int (length pth) - 1;
             lnks = (case network_manager of
                       None \<Rightarrow> []
                     | Some nm \<Rightarrow>
                         fold (\<lambda>(a, b) acc.
                                 case get_link_by_nodes nm a b of
                                   None \<Rightarrow> acc
                                 | Some link \<Rightarrow> acc @ [l_id link])
                              (hops pth) [])
         in \<lparr> pd_path_nodes = pth, pd_hop_count = hop_count,
               pd_total_latency = total_latency,
               pd_bottleneck_bandwidth = bottleneck_bw,
               pd_throughput = bottleneck_bw, pd_links = lnks \<rparr>))"

text \<open>
  \<open>nx.shortest_path\<close> belongs to the networkx library, not to this repository. It is a
  parameter of the model: a function of the graph, the two end nodes and the name of the
  weight attribute (\<open>None\<close> for the unweighted search) that returns a path or raises.
\<close>

type_synonym nx_shortest_path =
  "Graph \<Rightarrow> string \<Rightarrow> string \<Rightarrow> string option \<Rightarrow> error + string list"

text \<open>
  The result is \<open>Inl e\<close> for a raised exception, \<open>Inr None\<close> for the returned \<open>None\<close>
  and \<open>Inr (Some p)\<close> for a returned path. The \<open>except\<close> clause catches
  \<open>NetworkXNoPath\<close> only, also not the \<open>ValueError\<close> of an unknown metric.
\<close>

definition compute_shortest_path ::
  "nx_shortest_path \<Rightarrow> Graph \<Rightarrow> string \<Rightarrow> string \<Rightarrow> string \<Rightarrow> error + string list option" where
  "compute_shortest_path nx g start_node_id end_node_id metric =
     (if start_node_id \<notin> g_nodes g then Inl ValueError
      else if end_node_id \<notin> g_nodes g then Inl ValueError
      else if start_node_id = end_node_id then Inl ValueError
      else
        (case (if metric = ''latency''
               then nx g start_node_id end_node_id (Some ''weight'')
               else if metric = ''hops''
               then nx g start_node_id end_node_id None
               else Inl ValueError) of
           Inr pth \<Rightarrow> Inr (Some pth)
         | Inl NetworkXNoPath \<Rightarrow> Inr None
         | Inl e \<Rightarrow> Inl e))"

text \<open>
  What the library documents about \<open>nx.shortest_path\<close> and what the claims about
  missing routes rest on: between two nodes of the graph it raises \<open>NetworkXNoPath\<close>
  exactly when no chain of edges joins them.
\<close>

definition adjacent :: "Graph \<Rightarrow> (string \<times> string) set" where
  "adjacent g = {(a, b). get_edge_data g a b \<noteq> None}"

definition joined :: "Graph \<Rightarrow> string \<Rightarrow> string \<Rightarrow> bool" where
  "joined g a b = ((a, b) \<in> (adjacent g)\<^sup>*)"

definition nx_no_path_contract :: "nx_shortest_path \<Rightarrow> bool" where
  "nx_no_path_contract nx =
     (\<forall>g a b w. a \<in> g_nodes g \<and> b \<in> g_nodes g \<longrightarrow>
        ((nx g a b w = Inl NetworkXNoPath) = (\<not> joined g a b)))"

record PathInfo =
  pi_source_id :: string
  pi_destination_id :: string
  pi_path_nodes :: "string list"
  pi_hop_count :: int
  pi_total_latency :: real
  pi_bottleneck_bandwidth :: real
  pi_throughput :: real
  pi_links :: "string list"
  pi_timestamp :: real

record PathManager =
  router_graph :: Graph
  current_path :: "PathInfo option"
  path_history :: "PathInfo list"

text \<open>
  \<open>set_path\<close> catches \<open>ValueError\<close> and \<open>NetworkXError\<close>; any other exception leaves
  the method with the path manager as it was when the exception was raised.
\<close>

definition set_path ::
  "nx_shortest_path \<Rightarrow> NetworkManager \<Rightarrow> PathManager \<Rightarrow> string \<Rightarrow> string
     \<Rightarrow> (error + bool) \<times> PathManager" where
  "set_path nx nm pm source_id dest_id =
     (let pm1 = pm\<lparr> router_graph := graph nm \<rparr>
      in case compute_shortest_path nx (router_graph pm1) source_id dest_id ''latency'' of
           Inl ValueError \<Rightarrow> (Inr False, pm1\<lparr> current_path := None \<rparr>)
         | Inl NetworkXError \<Rightarrow> (Inr False, pm1\<lparr> current_path := None \<rparr>)
         | Inl e \<Rightarrow> (Inl e, pm1)
         | Inr None \<Rightarrow> (Inr False, pm1\<lparr> current_path := None \<rparr>)
         | Inr (Some path_nodes) \<Rightarrow>
             (let path_dict = get_path_info (router_graph pm1) path_nodes (Some nm);
                  info = \<lparr> pi_source_id = source_id, pi_destination_id = dest_id,
                           pi_path_nodes = path_nodes,
                           pi_hop_count = pd_hop_count path_dict,
                           pi_total_latency = pd_total_latency path_dict,
                           pi_bottleneck_bandwidth = pd_bottleneck_bandwidth path_dict,
                           pi_throughput = pd_throughput path_dict,
                           pi_links = pd_links path_dict,
                           pi_timestamp = 0 \<rparr>
              in (Inr True, pm1\<lparr> current_path := Some info,
                                  path_history := path_history pm1 @ [info] \<rparr>)))"

definition get_current_path_nodes :: "PathManager \<Rightarrow> string list option" where
  "get_current_path_nodes pm =
     (case current_path pm of Some info \<Rightarrow> Some (pi_path_nodes info) | None \<Rightarrow> None)"


section \<open>Metrics (latency.py)\<close>

record LinkMetrics =
  lm_link_id :: string
  lm_source_node_id :: string
  lm_dest_node_id :: string
  lm_latency :: real
  lm_bandwidth :: real
  lm_packets_sent :: int
  lm_packets_received :: int
  lm_total_bytes_transferred :: int
  lm_total_transit_time :: real

record PacketMetrics =
  m_packet_id :: string
  m_source_node_id :: string
  m_destination_node_id :: string
  m_path_nodes :: "string list"
  m_packet_size :: int
  m_state :: string
  m_creation_time :: real
  m_sent_time :: real
  m_delivery_time :: real
  m_path_latencies :: "real list"
  m_hop_count :: int
  m_total_latency :: real
  m_actual_latency :: real
  m_bottleneck_bandwidth :: real
  m_throughput :: real
  m_link_ids :: "string list"

definition calculate_metrics :: "PacketMetrics \<Rightarrow> NetworkManager \<Rightarrow> PacketMetrics" where
  "calculate_metrics m network_manager =
     (let m1 = m\<lparr> m_hop_count := int (length (m_path_nodes m)) - 1 \<rparr>;
          (total_lat, min_bw, m2) =
            fold (\<lambda>(node_a_id, node_b_id) (total_lat, min_bw, mm).
                    case get_link_by_nodes network_manager node_a_id node_b_id of
                      None \<Rightarrow> (total_lat, min_bw, mm)
                    | Some link \<Rightarrow>
                        (total_lat + l_latency link,
                         (case min_bw of
                            None \<Rightarrow> Some (l_bandwidth link)
                          | Some b \<Rightarrow> Some (min b (l_bandwidth link))),
                         mm\<lparr> m_path_latencies := m_path_latencies mm @ [l_latency link],
                             m_link_ids := m_link_ids mm @ [l_id link] \<rparr>))
                 (hops (m_path_nodes m1)) (0, None, m1);
          m3 = m2\<lparr> m_total_latency := total_lat \<rparr>;
          m4 = (case min_bw of
                  None \<Rightarrow> m3
                | Some b \<Rightarrow> m3\<lparr> m_bottleneck_bandwidth := b \<rparr>);
          m5 = (if m_delivery_time m4 > 0 \<and> m_sent_time m4 > 0
                then m4\<lparr> m_actual_latency := m_delivery_time m4 - m_sent_time m4 \<rparr>
                else m4)
      in if m_actual_latency m5 > 0
         then m5\<lparr> m_throughput :=
                    real_of_int (m_packet_size m5 * 8) / (m_actual_latency m5 / 1000) / 1000000 \<rparr>
         else m5)"

record LatencyThroughputEngine =
  link_metrics :: "string \<rightharpoonup> LinkMetrics"
  packet_metrics :: "string \<rightharpoonup> PacketMetrics"
  total_packets_sent :: int
  total_packets_delivered :: int
  le_total_packets_dropped :: int

definition create_packet_metrics ::
  "LatencyThroughputEngine \<Rightarrow> NetworkManager \<Rightarrow> string \<Rightarrow> string \<Rightarrow> string \<Rightarrow> string list
     \<Rightarrow> int \<Rightarrow> real \<Rightarrow> LatencyThroughputEngine" where
  "create_packet_metrics le network_manager packet_id source_id dest_id pth sz created =
     (let metrics = \<lparr> m_packet_id = packet_id, m_source_node_id = source_id,
                      m_destination_node_id = dest_id, m_path_nodes = pth,
                      m_packet_size = sz, m_state = ''queued'',
                      m_creation_time = created, m_sent_time = created,
                      m_delivery_time = 0, m_path_latencies = [], m_hop_count = 0,
                      m_total_latency = 0, m_actual_latency = 0,
                      m_bottleneck_bandwidth = 0, m_throughput = 0, m_link_ids = [] \<rparr>;
          metrics1 = calculate_metrics metrics network_manager
      in le\<lparr> packet_metrics := (packet_metrics le)(packet_id \<mapsto> metrics1),
              total_packets_sent := total_packets_sent le + 1 \<rparr>)"

definition record_packet_sent ::
  "LatencyThroughputEngine \<Rightarrow> string \<Rightarrow> real \<Rightarrow> LatencyThroughputEngine" where
  "record_packet_sent le packet_id sent =
     (case packet_metrics le packet_id of
        None \<Rightarrow> le
      | Some metrics \<Rightarrow>
          le\<lparr> packet_metrics := (packet_metrics le)
                 (packet_id \<mapsto> metrics\<lparr> m_sent_time := sent, m_state := ''in_transit'' \<rparr>) \<rparr>)"

text \<open>
  The division by the hop count raises \<open>ZeroDivisionError\<close> when the count is 0; the
  loop stops there with the links before it already updated.
\<close>

fun update_link_metrics_for_packet ::
  "LatencyThroughputEngine \<Rightarrow> PacketMetrics \<Rightarrow> string list
     \<Rightarrow> (error + unit) \<times> LatencyThroughputEngine" where
  "update_link_metrics_for_packet le pmx [] = (Inr (), le)"
| "update_link_metrics_for_packet le pmx (lid # rest) =
     (case link_metrics le lid of
        None \<Rightarrow> update_link_metrics_for_packet le pmx rest
      | Some link_metric \<Rightarrow>
          (let lm1 = link_metric\<lparr> lm_packets_sent := lm_packets_sent link_metric + 1 \<rparr>;
               lm2 = lm1\<lparr> lm_packets_received := lm_packets_received lm1 + 1 \<rparr>;
               lm3 = lm2\<lparr> lm_total_bytes_transferred :=
                              lm_total_bytes_transferred lm2 + m_packet_size pmx \<rparr>;
               le3 = le\<lparr> link_metrics := (link_metrics le)(lid \<mapsto> lm3) \<rparr>
           in if m_actual_latency pmx > 0
              then (if m_hop_count pmx = 0 then (Inl ZeroDivisionError, le3)
                    else
                      (let per_link_time = m_actual_latency pmx / real_of_int (m_hop_count pmx);
                           lm4 = lm3\<lparr> lm_total_transit_time :=
                                          lm_total_transit_time lm3 + per_link_time \<rparr>
                       in update_link_metrics_for_packet
                            (le\<lparr> link_metrics := (link_metrics le)(lid \<mapsto> lm4) \<rparr>) pmx rest))
              else update_link_metrics_for_packet le3 pmx rest))"

definition record_packet_delivery ::
  "LatencyThroughputEngine \<Rightarrow> NetworkManager \<Rightarrow> string \<Rightarrow> real
     \<Rightarrow> (error + unit) \<times> LatencyThroughputEngine" where
  "record_packet_delivery le network_manager packet_id delivered =
     (case packet_metrics le packet_id of
        None \<Rightarrow> (Inr (), le)
      | Some metrics \<Rightarrow>
          (let m1 = metrics\<lparr> m_delivery_time := delivered, m_state := ''delivered'' \<rparr>;
               m2 = calculate_metrics m1 network_manager;
               le1 = le\<lparr> packet_metrics := (packet_metrics le)(packet_id \<mapsto> m2),
                          total_packets_delivered := total_packets_delivered le + 1 \<rparr>
           in update_link_metrics_for_packet le1 m2 (m_link_ids m2)))"

definition record_packet_drop :: "LatencyThroughputEngine \<Rightarrow> string \<Rightarrow> LatencyThroughputEngine" where
  "record_packet_drop le packet_id =
     (case packet_metrics le packet_id of
        None \<Rightarrow> le
      | Some metrics \<Rightarrow>
          le\<lparr> packet_metrics := (packet_metrics le)(packet_id \<mapsto> metrics\<lparr> m_state := ''dropped'' \<rparr>),
              le_total_packets_dropped := le_total_packets_dropped le + 1 \<rparr>)"


section \<open>The simulation state\<close>

text \<open>
  Packet objects are shared: the packet manager's lists, the animator and the link
  queues all hold references to the same object, and a change made through one of them
  is seen through the others. A reference is an address into a store of packets; a new
  packet takes the next free address.
\<close>

type_synonym addr = nat

record PacketAnimator =
  an_packet :: addr
  an_node_a_pos :: "real \<times> real"
  an_node_b_pos :: "real \<times> real"
  an_link_latency :: real
  an_start_time :: real
  an_speed_multiplier :: real

text \<open>
  Of the animator thread, the fields the packet code reads and writes. The clock
  \<open>sim_time\<close> is advanced by the thread itself, outside the operations modelled here.
\<close>

record AnimatorWorker =
  aw_active_packets :: "string \<rightharpoonup> addr"
  animators :: "string \<rightharpoonup> PacketAnimator"
  speed_multiplier :: real
  sim_time :: real

record CongestionController =
  link_queues :: "string \<rightharpoonup> addr LinkQueue"
  congestion_windows :: "string \<rightharpoonup> real"
  drop_history :: "(string \<times> string \<times> real) list"
  congestion_events :: "(string \<times> string \<times> real \<times> real) list"
  cc_total_packets_dropped :: int
  enable_tcp_congestion :: bool

text \<open>
  The packet manager (\<open>QueueAwarePacketManager\<close>) with the objects it was built from.
\<close>

record World =
  network_manager :: NetworkManager
  path_manager :: PathManager
  animator_worker :: AnimatorWorker
  latency_engine :: LatencyThroughputEngine
  congestion_controller :: CongestionController
  all_packets :: "addr list"
  active_packets :: "string \<rightharpoonup> addr"
  delivered_packets :: "addr list"
  dropped_packets :: "addr list"
  packet_counter :: int
  heap :: "addr \<Rightarrow> Packet"
  next_addr :: addr

section \<open>Animator (packet.py, class AnimatorWorker)\<close>

definition add_packet ::
  "World \<Rightarrow> addr \<Rightarrow> real \<times> real \<Rightarrow> real \<times> real \<Rightarrow> real \<Rightarrow> World" where
  "add_packet w pkt node_a_pos node_b_pos lat =
     (let a = animator_worker w;
          pid = pkt_id (heap w pkt);
          animator = \<lparr> an_packet = pkt, an_node_a_pos = node_a_pos,
                       an_node_b_pos = node_b_pos, an_link_latency = lat,
                       an_start_time = sim_time a,
                       an_speed_multiplier = speed_multiplier a \<rparr>
      in w\<lparr> animator_worker :=
               a\<lparr> aw_active_packets := (aw_active_packets a)(pid \<mapsto> pkt),
                   animators := (animators a)(pid \<mapsto> animator) \<rparr> \<rparr>)"

definition remove_packet :: "World \<Rightarrow> string \<Rightarrow> World" where
  "remove_packet w packet_id =
     (let a = animator_worker w
      in w\<lparr> animator_worker :=
               a\<lparr> aw_active_packets := (aw_active_packets a)(packet_id := None),
                   animators := (animators a)(packet_id := None) \<rparr> \<rparr>)"

section \<open>Congestion controller (congestion.py, class CongestionController)\<close>


definition record_drop :: "World \<Rightarrow> string \<Rightarrow> string \<Rightarrow> real \<Rightarrow> World" where
  "record_drop w packet_id lid time_ms =
     (let c = congestion_controller w
      in w\<lparr> congestion_controller :=
               c\<lparr> drop_history := drop_history c @ [(packet_id, lid, time_ms)] \<rparr> \<rparr>)"

definition record_congestion_event :: "World \<Rightarrow> string \<Rightarrow> string \<Rightarrow> real \<Rightarrow> World" where
  "record_congestion_event w lid event_type cwnd =
     (let c = congestion_controller w
      in w\<lparr> congestion_controller :=
               c\<lparr> congestion_events :=
                     congestion_events c @ [(lid, event_type, cwnd, sim_time (animator_worker w))] \<rparr> \<rparr>)"

definition handle_packet_drop :: "World \<Rightarrow> string \<Rightarrow> World" where
  "handle_packet_drop w lid =
     (let c = congestion_controller w
      in case congestion_windows c lid of
           None \<Rightarrow> w
         | Some cwnd \<Rightarrow>
             (let new_cwnd = max 1 (cwnd / 2);
                  w1 = w\<lparr> congestion_controller :=
                             c\<lparr> congestion_windows := (congestion_windows c)(lid \<mapsto> new_cwnd) \<rparr> \<rparr>
              in record_congestion_event w1 lid ''drop'' new_cwnd))"

text \<open>
  \<open>self.network_manager.links[link_id]\<close> raises \<open>KeyError\<close> for an identifier that is
  not a key of the dictionary.
\<close>

definition handle_packet_success :: "World \<Rightarrow> string \<Rightarrow> (error + unit) \<times> World" where
  "handle_packet_success w lid =
     (let c = congestion_controller w
      in case congestion_windows c lid of
           None \<Rightarrow> (Inr (), w)
         | Some cwnd \<Rightarrow>
             (case map_of (links (network_manager w)) lid of
                None \<Rightarrow> (Inl KeyError, w)
              | Some l \<Rightarrow>
                  (let max_cwnd = l_queue_size l;
                       new_cwnd = min (real_of_int max_cwnd) (cwnd + 1 / 10)
                   in (Inr (),
                       w\<lparr> congestion_controller :=
                            c\<lparr> congestion_windows := (congestion_windows c)(lid \<mapsto> new_cwnd) \<rparr> \<rparr>))))"

text \<open>
  The link handed to \<open>process_packet_on_link\<close> is the object that a lookup in the
  network manager returned, so what the method writes to it is stored back there.
  \<open>rnd\<close> is the draw used by a random-drop queue.
\<close>

definition process_packet_on_link ::
  "nat \<Rightarrow> World \<Rightarrow> addr \<Rightarrow> Link \<Rightarrow> real \<Rightarrow> (error + bool) \<times> World" where
  "process_packet_on_link rnd w pkt link current_time =
     (let c = congestion_controller w
      in case link_queues c (l_id link) of
           None \<Rightarrow> (Inr True, w)
         | Some q \<Rightarrow>
             (let (accepted, q1) = enqueue rnd q pkt current_time;
                  w1 = w\<lparr> congestion_controller :=
                             c\<lparr> link_queues := (link_queues c)(l_id link \<mapsto> q1) \<rparr> \<rparr>
              in if \<not> accepted
                 then
                   (let c1 = congestion_controller w1;
                        w2 = w1\<lparr> congestion_controller :=
                                    c1\<lparr> cc_total_packets_dropped := cc_total_packets_dropped c1 + 1 \<rparr> \<rparr>;
                        w3 = record_drop w2 (pkt_id (heap w2 pkt)) (l_id link) current_time;
                        w4 = w3\<lparr> network_manager :=
                                    store_link (update_queue_color link) (network_manager w3) \<rparr>;
                        w5 = (if enable_tcp_congestion (congestion_controller w4)
                              then handle_packet_drop w4 (l_id link) else w4)
                    in (Inr accepted, w5))
                 else
                   (let link1 = link\<lparr> l_current_queue := get_size q1 \<rparr>;
                        w2 = w1\<lparr> network_manager :=
                                    store_link (update_queue_color link1) (network_manager w1) \<rparr>
                    in if enable_tcp_congestion (congestion_controller w2)
                       then (case handle_packet_success w2 (l_id link) of
                               (Inl e, w3) \<Rightarrow> (Inl e, w3)
                             | (Inr u, w3) \<Rightarrow> (Inr accepted, w3))
                       else (Inr accepted, w2))))"



section \<open>Packet manager (congestion.py, class QueueAwarePacketManager)\<close>

text \<open>
  The format \<open>f"PKT{n:04d}"\<close>: the decimal digits of the counter, padded with zeros
  to four characters, the sign counted among them.
\<close>

fun str_nat :: "nat \<Rightarrow> string" where
  "str_nat n =
     (if n < 10 then [char_of (48 + n)]
      else str_nat (n div 10) @ [char_of (48 + n mod 10)])"

definition zfill :: "nat \<Rightarrow> string \<Rightarrow> string" where
  "zfill k ds = replicate (k - length ds) (CHR ''0'') @ ds"

definition format_04d :: "int \<Rightarrow> string" where
  "format_04d n =
     (if n < 0 then CHR ''-'' # zfill 3 (str_nat (nat (- n)))
      else zfill 4 (str_nat (nat n)))"

definition drop_packet :: "World \<Rightarrow> addr \<Rightarrow> World" where
  "drop_packet w pkt =
     (let w1 = w\<lparr> heap := (heap w)(pkt := (heap w pkt)\<lparr> state := DROPPED \<rparr>) \<rparr>;
          w2 = w1\<lparr> heap := (heap w1)(pkt := mark_dropped (heap w1 pkt)) \<rparr>;
          pid = pkt_id (heap w2 pkt);
          w3 = w2\<lparr> latency_engine := record_packet_drop (latency_engine w2) pid \<rparr>;
          w4 = w3\<lparr> dropped_packets := dropped_packets w3 @ [pkt] \<rparr>;
          w5 = w4\<lparr> active_packets := (active_packets w4)(pid := None) \<rparr>
      in remove_packet w5 pid)"

text \<open>
  The result of \<open>create_packet\<close> is the new packet's reference, or \<open>None\<close>. An
  exception that \<open>set_path\<close> lets through leaves the method after the counter was
  incremented. \<open>set_path\<close> returns true only when it has stored the path it found,
  so the path nodes are there to read; the branch for their absence is never taken.
\<close>

definition create_packet ::
  "nx_shortest_path \<Rightarrow> World \<Rightarrow> string \<Rightarrow> string \<Rightarrow> int \<Rightarrow> (error + addr option) \<times> World" where
  "create_packet nx w source_id dest_id sz =
     (if source_id \<notin> dom (nodes (network_manager w)) \<or>
         dest_id \<notin> dom (nodes (network_manager w))
      then (Inr None, w)
      else if source_id = dest_id then (Inr None, w)
      else
        (let w1 = w\<lparr> packet_counter := packet_counter w + 1 \<rparr>;
             packet_id = ''PKT'' @ format_04d (packet_counter w1);
             current_time = sim_time (animator_worker w1);
             (found, pm1) = set_path nx (network_manager w1) (path_manager w1) source_id dest_id;
             w2 = w1\<lparr> path_manager := pm1 \<rparr>
         in case found of
              Inl e \<Rightarrow> (Inl e, w2)
            | Inr False \<Rightarrow> (Inr None, w2)
            | Inr True \<Rightarrow>
                (case get_current_path_nodes (path_manager w2) of
                   None \<Rightarrow> (Inr None, w2)
                 | Some path_nodes \<Rightarrow>
                     (let pkt = next_addr w2;
                          p = Packet_init packet_id source_id dest_id current_time current_time
                                sz path_nodes QUEUED;
                          p1 = p\<lparr> current_node_id := source_id \<rparr>;
                          w3 = w2\<lparr> heap := (heap w2)(pkt := p1), next_addr := Suc pkt \<rparr>;
                          w4 = w3\<lparr> all_packets := all_packets w3 @ [pkt] \<rparr>;
                          w5 = w4\<lparr> active_packets := (active_packets w4)(packet_id \<mapsto> pkt) \<rparr>;
                          w6 = w5\<lparr> latency_engine :=
                                      create_packet_metrics (latency_engine w5) (network_manager w5)
                                        packet_id source_id dest_id path_nodes sz current_time \<rparr>
                      in (Inr (Some pkt), w6)))))"

text \<open>
  \<open>self.network_manager.nodes[node_id]\<close> raises \<open>KeyError\<close> for an unknown node; the
  admission to the link's queue has happened by then.
\<close>

definition start_packet_animation :: "nat \<Rightarrow> World \<Rightarrow> addr \<Rightarrow> (error + bool) \<times> World" where
  "start_packet_animation rnd w pkt =
     (if length (path (heap w pkt)) < 2 then (Inr False, drop_packet w pkt)
      else
        (let node_a_id = path (heap w pkt) ! 0;
             node_b_id = path (heap w pkt) ! 1
         in case get_link_by_nodes (network_manager w) node_a_id node_b_id of
              None \<Rightarrow> (Inr False, drop_packet w pkt)
            | Some link \<Rightarrow>
                (case process_packet_on_link rnd w pkt link (sim_time (animator_worker w)) of
                   (Inl e, w1) \<Rightarrow> (Inl e, w1)
                 | (Inr False, w1) \<Rightarrow> (Inr False, drop_packet w1 pkt)
                 | (Inr True, w1) \<Rightarrow>
                     (case nodes (network_manager w1) node_a_id of
                        None \<Rightarrow> (Inl KeyError, w1)
                      | Some node_a \<Rightarrow>
                          (case nodes (network_manager w1) node_b_id of
                             None \<Rightarrow> (Inl KeyError, w1)
                           | Some node_b \<Rightarrow>
                               (let p = heap w1 pkt;
                                    p1 = p\<lparr> state := IN_TRANSIT \<rparr>;
                                    p2 = p1\<lparr> current_link_index := 0 \<rparr>;
                                    p3 = p2\<lparr> link_latency := l_latency link \<rparr>;
                                    w2 = w1\<lparr> heap := (heap w1)(pkt := p3) \<rparr>;
                                    w3 = w2\<lparr> latency_engine :=
                                                record_packet_sent (latency_engine w2) (pkt_id p3)
                                                  (sim_time (animator_worker w2)) \<rparr>
                                in (Inr True,
                                    add_packet w3 pkt (n_x node_a, n_y node_a)
                                      (n_x node_b, n_y node_b) (l_latency link))))))))"

definition advance_packet :: "nat \<Rightarrow> World \<Rightarrow> addr \<Rightarrow> (error + bool) \<times> World" where
  "advance_packet rnd w pkt =
     (let current_time = sim_time (animator_worker w);
          (reached, p1) = move_to_next_link (heap w pkt) current_time;
          w1 = w\<lparr> heap := (heap w)(pkt := p1) \<rparr>
      in if reached
         then
           (let p2 = mark_delivered (heap w1 pkt) current_time;
                w2 = w1\<lparr> heap := (heap w1)(pkt := p2) \<rparr>;
                (r, le1) = record_packet_delivery (latency_engine w2) (network_manager w2)
                             (pkt_id p2) current_time;
                w3 = w2\<lparr> latency_engine := le1 \<rparr>
            in case r of
                 Inl e \<Rightarrow> (Inl e, w3)
               | Inr u \<Rightarrow>
                   (let w4 = w3\<lparr> delivered_packets := delivered_packets w3 @ [pkt] \<rparr>
                    in (Inr True, w4\<lparr> active_packets := (active_packets w4)(pkt_id p2 := None) \<rparr>)))
         else if path_index p1 + 1 < length (path p1)
         then
           (let node_a_id = path p1 ! path_index p1;
                node_b_id = path p1 ! (path_index p1 + 1)
            in case get_link_by_nodes (network_manager w1) node_a_id node_b_id of
                 None \<Rightarrow> (Inr False, w1)
               | Some link \<Rightarrow>
                   (case process_packet_on_link rnd w1 pkt link current_time of
                      (Inl e, w2) \<Rightarrow> (Inl e, w2)
                    | (Inr False, w2) \<Rightarrow> (Inr False, drop_packet w2 pkt)
                    | (Inr True, w2) \<Rightarrow>
                        (case nodes (network_manager w2) node_a_id of
                           None \<Rightarrow> (Inl KeyError, w2)
                         | Some node_a \<Rightarrow>
                             (case nodes (network_manager w2) node_b_id of
                                None \<Rightarrow> (Inl KeyError, w2)
                              | Some node_b \<Rightarrow>
                                  (let p2 = (heap w2 pkt)\<lparr> link_latency := l_latency link \<rparr>;
                                       w3 = w2\<lparr> heap := (heap w2)(pkt := p2) \<rparr>
                                   in (Inr False,
                                       add_packet w3 pkt (n_x node_a, n_y node_a)
                                         (n_x node_b, n_y node_b) (l_latency link)))))))
         else (Inr False, w1))"


section \<open>Histories of the congestion controller\<close>








section \<open>Resolved paths\<close>

text \<open>
  A path is resolved over links of given latencies and bandwidths when it has at least
  two nodes and each hop of it is an edge of the graph that carries the latency (as its
  weight) and the bandwidth of the corresponding link.
\<close>

definition link_on_hop :: "Graph \<Rightarrow> string \<times> string \<Rightarrow> real \<times> real \<Rightarrow> bool" where
  "link_on_hop g h lk =
     (case get_edge_data g (fst h) (snd h) of
        None \<Rightarrow> False
      | Some d \<Rightarrow> weight d = Some (fst lk) \<and> bandwidth d = Some (snd lk))"

definition resolved_over :: "Graph \<Rightarrow> string list \<Rightarrow> (real \<times> real) list \<Rightarrow> bool" where
  "resolved_over g pth lks = (2 \<le> length pth \<and> list_all2 (link_on_hop g) (hops pth) lks)"

section \<open>Sample states\<close>

text \<open>A queue of capacity 1 that holds one packet, under each of two policies.\<close>

definition full_head_drop_queue :: "addr LinkQueue" where
  "full_head_drop_queue = snd (enqueue 0 (LinkQueue_init ''L1'' 1 HEAD_DROP) 1 0)"

definition full_tail_drop_queue :: "addr LinkQueue" where
  "full_tail_drop_queue = snd (enqueue 0 (LinkQueue_init ''L1'' 1 TAIL_DROP) 1 5)"

text \<open>A packet from \<open>N1\<close> to \<open>N2\<close> over the one link between them.\<close>

definition sample_packet :: Packet where
  "sample_packet =
     Packet_init ''PKT0001'' ''N1'' ''N2'' 0 0 1024 [''N1'', ''N2''] QUEUED"

text \<open>
  A topology of two nodes joined by the link \<open>L1\<close> of queue size 2, with nothing sent
  yet and no queue created.
\<close>

definition sample_link :: Link where
  "sample_link =
     \<lparr> l_id = ''L1'', l_node_a = ''N1'', l_node_b = ''N2'', l_latency = 5,
       l_bandwidth = 100, l_queue_size = 2, l_current_queue = 0,
       l_color = LINK_COLOR_DEFAULT \<rparr>"

definition sample_graph :: Graph where
  "sample_graph =
     \<lparr> g_nodes = {''N1'', ''N2''},
       g_edges = [((''N1'', ''N2''),
                   \<lparr> weight = Some 5, bandwidth = Some 100, edge_link_id = Some ''L1'' \<rparr>)] \<rparr>"

definition sample_world :: World where
  "sample_world =
     \<lparr> network_manager =
         \<lparr> nodes = [''N1'' \<mapsto> \<lparr> n_id = ''N1'', n_label = ''Node1'', n_x = 100, n_y = 100 \<rparr>,
                    ''N2'' \<mapsto> \<lparr> n_id = ''N2'', n_label = ''Node2'', n_x = 300, n_y = 100 \<rparr>],
           links = [(''L1'', sample_link)],
           graph = sample_graph \<rparr>,
       path_manager = \<lparr> router_graph = sample_graph, current_path = None, path_history = [] \<rparr>,
       animator_worker =
         \<lparr> aw_active_packets = Map.empty, animators = Map.empty,
           speed_multiplier = 1, sim_time = 0 \<rparr>,
       latency_engine =
         \<lparr> link_metrics = Map.empty, packet_metrics = Map.empty, total_packets_sent = 0,
           total_packets_delivered = 0, le_total_packets_dropped = 0 \<rparr>,
       congestion_controller =
         \<lparr> link_queues = Map.empty, congestion_windows = Map.empty, drop_history = [],
           congestion_events = [], cc_total_packets_dropped = 0,
           enable_tcp_congestion = True \<rparr>,
       all_packets = [], active_packets = Map.empty, delivered_packets = [],
       dropped_packets = [], packet_counter = 0,
       heap = (\<lambda>a. sample_packet), next_addr = 0 \<rparr>"

text \<open>The sample world after the packet at address 0 has begun its transit.\<close>

definition sample_started :: World where
  "sample_started = snd (start_packet_animation 0 sample_world 0)"

text \<open>A graph of two nodes and no edge, and a three-node chain.\<close>

definition split_graph :: Graph where
  "split_graph = \<lparr> g_nodes = {''N1'', ''N2''}, g_edges = [] \<rparr>"

definition chain_graph :: Graph where
  "chain_graph =
     \<lparr> g_nodes = {''A'', ''B'', ''C''},
       g_edges = [((''A'', ''B''),
                   \<lparr> weight = Some 5, bandwidth = Some 100, edge_link_id = Some ''L1'' \<rparr>),
                  ((''B'', ''C''),
                   \<lparr> weight = Some 7, bandwidth = Some 40, edge_link_id = Some ''L2'' \<rparr>)] \<rparr>"

text \<open>
  A stand-in for the library's search on graphs like these: it only tells whether the
  end nodes are joined.
\<close>

definition sample_nx :: nx_shortest_path where
  "sample_nx g a b w = (if joined g a b then Inr [a, b] else Inl NetworkXNoPath)"


section \<open>Properties of the link queue\<close>

lemma enqueue_packets_enqueued:
  "packets_enqueued (snd (enqueue rnd q pkt t)) = packets_enqueued q + 1"
  by (simp add: enqueue_def Let_def split: DropPolicy.split)

lemma randint_range: "a \<le> b \<Longrightarrow> a \<le> randint rnd a b \<and> randint rnd a b \<le> b"
  unfolding randint_def
  using pos_mod_bound [of "b - a + 1" "int rnd"] pos_mod_sign [of "b - a + 1" "int rnd"]
  by simp

lemma length_pop_at: "idx < length xs \<Longrightarrow> length (pop_at idx xs) = length xs - 1"
  by (simp add: pop_at_def)

lemma random_idx_lt:
  assumes "xs \<noteq> []"
  shows "nat (randint rnd 0 (int (length xs) - 1)) < length xs"
proof -
  have "0 \<le> int (length xs) - 1" using assms by (cases xs) simp_all
  from randint_range [OF this, of rnd] show ?thesis by linarith
qed

lemma enqueue_length:
  "length (queue (snd (enqueue rnd q pkt t))) =
     (if int (length (queue q)) < capacity q then length (queue q) + 1 else length (queue q))"
  by (cases "queue q = []")
     (auto simp: enqueue_def Let_def length_pop_at random_idx_lt split: DropPolicy.split)

lemma enqueue_dropped:
  "packets_dropped (snd (enqueue rnd q pkt t)) =
     (if int (length (queue q)) < capacity q then packets_dropped q else packets_dropped q + 1)"
  by (simp add: enqueue_def Let_def split: DropPolicy.split)

lemma enqueue_dequeued:
  "packets_dequeued (snd (enqueue rnd q pkt t)) = packets_dequeued q"
  by (simp add: enqueue_def Let_def split: DropPolicy.split)

lemma enqueue_capacity: "capacity (snd (enqueue rnd q pkt t)) = capacity q"
  by (simp add: enqueue_def Let_def split: DropPolicy.split)

lemma enqueue_accepted:
  "fst (enqueue rnd q pkt t) =
     (int (length (queue q)) < capacity q \<or> drop_policy q \<noteq> TAIL_DROP)"
  by (simp add: enqueue_def Let_def split: DropPolicy.split)

lemma dequeue_capacity: "capacity (snd (dequeue q t)) = capacity q"
  by (simp add: dequeue_def Let_def split: list.split)

lemma dequeue_length: "length (queue (snd (dequeue q t))) = length (queue q) - 1"
  by (simp add: dequeue_def Let_def split: list.split)

lemma dequeue_counters:
  "packets_enqueued (snd (dequeue q t)) = packets_enqueued q"
  "packets_dropped (snd (dequeue q t)) = packets_dropped q"
  "packets_dequeued (snd (dequeue q t)) =
     (if queue q = [] then packets_dequeued q else packets_dequeued q + 1)"
  by (simp_all add: dequeue_def Let_def split: list.split)

lemma apply_op_capacity: "capacity (apply_op q x) = capacity q"
  by (cases x) (simp_all add: enqueue_capacity dequeue_capacity)

lemma apply_op_within:
  "int (length (queue q)) \<le> capacity q \<Longrightarrow>
     int (length (queue (apply_op q x))) \<le> capacity (apply_op q x)"
  by (cases x) (auto simp: enqueue_length enqueue_capacity dequeue_length dequeue_capacity)

lemma run_trace_within:
  "int (length (queue q)) \<le> capacity q \<Longrightarrow> s \<in> set (run_trace q ops) \<Longrightarrow>
     int (length (queue s)) \<le> capacity s \<and> capacity s = capacity q"
proof (induction ops arbitrary: q)
  case Nil
  then show ?case by simp
next
  case (Cons x xs)
  from Cons.prems(2) have "s = q \<or> s \<in> set (run_trace (apply_op q x) xs)" by simp
  then show ?case
  proof
    assume "s = q"
    with Cons.prems(1) show ?thesis by simp
  next
    assume a: "s \<in> set (run_trace (apply_op q x) xs)"
    have "int (length (queue s)) \<le> capacity s \<and> capacity s = capacity (apply_op q x)"
      by (rule Cons.IH [OF apply_op_within [OF Cons.prems(1)] a])
    then show ?thesis by (simp add: apply_op_capacity)
  qed
qed

lemma apply_op_conserved:
  assumes "int (length (queue q)) = packets_enqueued q - packets_dequeued q - packets_dropped q"
  shows "int (length (queue (apply_op q x))) =
           packets_enqueued (apply_op q x) - packets_dequeued (apply_op q x)
             - packets_dropped (apply_op q x)"
proof (cases x)
  case (Enqueue pkt t rnd)
  with assms show ?thesis
    by (simp add: enqueue_length enqueue_packets_enqueued enqueue_dropped enqueue_dequeued)
next
  case (Dequeue t)
  with assms show ?thesis
    by (cases "queue q") (simp_all add: dequeue_length dequeue_counters)
qed

lemma run_trace_conserved:
  "int (length (queue q)) = packets_enqueued q - packets_dequeued q - packets_dropped q \<Longrightarrow>
   s \<in> set (run_trace q ops) \<Longrightarrow>
   int (length (queue s)) = packets_enqueued s - packets_dequeued s - packets_dropped s"
proof (induction ops arbitrary: q)
  case Nil
  then show ?case by simp
next
  case (Cons x xs)
  from Cons.prems(2) have "s = q \<or> s \<in> set (run_trace (apply_op q x) xs)" by simp
  then show ?case
  proof
    assume "s = q"
    with Cons.prems(1) show ?thesis by simp
  next
    assume "s \<in> set (run_trace (apply_op q x) xs)"
    with Cons.IH [OF apply_op_conserved [OF Cons.prems(1)]] show ?thesis .
  qed
qed

lemma full_head_drop_queue_eq:
  "full_head_drop_queue =
     \<lparr> link_id = ''L1'', capacity = 1, drop_policy = HEAD_DROP,
       queue = [\<lparr> packet = 1, enqueue_time = 0 \<rparr>],
       packets_enqueued = 1, packets_dequeued = 0, packets_dropped = 0,
       total_queue_delay = 0 \<rparr>"
  by (simp add: full_head_drop_queue_def enqueue_def LinkQueue_init_def)

lemma full_tail_drop_queue_eq:
  "full_tail_drop_queue =
     \<lparr> link_id = ''L1'', capacity = 1, drop_policy = TAIL_DROP,
       queue = [\<lparr> packet = 1, enqueue_time = 5 \<rparr>],
       packets_enqueued = 1, packets_dequeued = 0, packets_dropped = 0,
       total_queue_delay = 0 \<rparr>"
  by (simp add: full_tail_drop_queue_def enqueue_def LinkQueue_init_def)

text \<open>
  C1, as stated, fails. The drop counter is incremented before the policy is looked at:
  a head-drop queue of capacity 1 that holds one packet accepts a second packet and
  counts a drop.
\<close>

theorem enqueue_head_drop_counts_drop:
  "int (length (queue full_head_drop_queue)) = capacity full_head_drop_queue \<and>
   drop_policy full_head_drop_queue = HEAD_DROP \<and>
   fst (enqueue 0 full_head_drop_queue 2 1) \<and>
   packets_dropped (snd (enqueue 0 full_head_drop_queue 2 1))
     = packets_dropped full_head_drop_queue + 1 \<and>
   packets_dropped (snd (enqueue 0 full_head_drop_queue 2 1))
     \<noteq> packets_dropped full_head_drop_queue"
  by (simp add: full_head_drop_queue_eq enqueue_def)

text \<open>
  C1, amended. An enqueue on a full queue increments \<open>packets_dropped\<close> by exactly 1
  under every drop policy; it returns not-accepted under tail-drop and accepted under
  head-drop and random-drop. On a queue that is not full the drop counter stays and the
  packet is accepted. In every case \<open>packets_enqueued\<close> is incremented by exactly 1.
\<close>

theorem enqueue_counters:
  "packets_enqueued (snd (enqueue rnd q pkt t)) = packets_enqueued q + 1 \<and>
   (capacity q \<le> int (length (queue q)) \<longrightarrow>
      packets_dropped (snd (enqueue rnd q pkt t)) = packets_dropped q + 1 \<and>
      fst (enqueue rnd q pkt t) = (drop_policy q \<noteq> TAIL_DROP)) \<and>
   (int (length (queue q)) < capacity q \<longrightarrow>
      packets_dropped (snd (enqueue rnd q pkt t)) = packets_dropped q \<and>
      fst (enqueue rnd q pkt t))"
  by (simp add: enqueue_packets_enqueued enqueue_dropped enqueue_accepted)

theorem enqueue_counters_witness:
  "capacity full_head_drop_queue \<le> int (length (queue full_head_drop_queue)) \<and>
   packets_enqueued (snd (enqueue 0 full_head_drop_queue 2 1)) = 2 \<and>
   packets_dropped (snd (enqueue 0 full_head_drop_queue 2 1)) = 1 \<and>
   fst (enqueue 0 full_head_drop_queue 2 1)"
  using enqueue_counters [of 0 full_head_drop_queue 2 1]
  by (simp add: full_head_drop_queue_eq)

text \<open>
  C2. A queue created with a capacity of at least 1 holds, before and after every call
  of any history of enqueues and dequeues, at most that many items, and its utilization
  is its length divided by the capacity, which lies between 0 and 1.
\<close>

theorem queue_length_within_capacity:
  assumes "1 \<le> cap"
    and "s \<in> set (run_trace (LinkQueue_init lid cap pol) ops)"
  shows "0 \<le> get_size s \<and> get_size s \<le> cap \<and> capacity s = cap \<and>
         get_size s = int (length (queue s)) \<and>
         get_utilization s = real (length (queue s)) / real_of_int cap \<and>
         0 \<le> get_utilization s \<and> get_utilization s \<le> 1"
proof -
  let ?q = "LinkQueue_init lid cap pol :: 'a LinkQueue"
  have "int (length (queue ?q)) \<le> capacity ?q"
    using assms(1) by (simp add: LinkQueue_init_def)
  from run_trace_within [OF this assms(2)]
  have len: "int (length (queue s)) \<le> cap" and c: "capacity s = cap"
    by (simp_all add: LinkQueue_init_def)
  have "real (length (queue s)) \<le> real_of_int cap"
    using len by linarith
  then have "real (length (queue s)) / real_of_int cap \<le> 1"
    using assms(1) by (simp add: divide_le_eq_1)
  moreover have "0 \<le> real (length (queue s)) / real_of_int cap"
    using assms(1) by simp
  moreover have "get_utilization s = real (length (queue s)) / real_of_int cap"
    using c assms(1) by (simp add: get_utilization_def)
  ultimately show ?thesis
    using len c assms(1) by (simp add: get_size_def)
qed

lemma sample_half_full_queue:
  "queue (run_ops (LinkQueue_init ''L2'' 2 TAIL_DROP) [Enqueue (1::nat) 0 0])
     = [\<lparr> packet = 1, enqueue_time = 0 \<rparr>]"
  by (simp add: enqueue_def LinkQueue_init_def)

lemma sample_evicting_queue:
  "queue (run_ops (LinkQueue_init ''L1'' 1 HEAD_DROP) [Enqueue (1::nat) 0 0, Enqueue 2 1 0])
     = [\<lparr> packet = 2, enqueue_time = 1 \<rparr>]"
  by (simp add: enqueue_def LinkQueue_init_def)

theorem queue_length_within_capacity_witness:
  "get_size (run_ops (LinkQueue_init ''L1'' 1 HEAD_DROP)
               [Enqueue (1::nat) 0 0, Enqueue 2 1 0]) \<le> 1 \<and>
   get_utilization (run_ops (LinkQueue_init ''L1'' 1 HEAD_DROP)
               [Enqueue (1::nat) 0 0, Enqueue 2 1 0]) \<le> 1 \<and>
   get_size (run_ops (LinkQueue_init ''L1'' 1 HEAD_DROP)
               [Enqueue (1::nat) 0 0, Enqueue 2 1 0]) = 1 \<and>
   get_utilization (run_ops (LinkQueue_init ''L1'' 1 HEAD_DROP)
               [Enqueue (1::nat) 0 0, Enqueue 2 1 0]) = 1 \<and>
   get_size (run_ops (LinkQueue_init ''L2'' 2 TAIL_DROP) [Enqueue (1::nat) 0 0]) = 1 \<and>
   get_utilization (run_ops (LinkQueue_init ''L2'' 2 TAIL_DROP) [Enqueue (1::nat) 0 0]) = 1 / 2"
proof -
  define s1 where
    "s1 = run_ops (LinkQueue_init ''L1'' 1 HEAD_DROP) [Enqueue (1::nat) 0 0, Enqueue 2 1 0]"
  define s2 where
    "s2 = run_ops (LinkQueue_init ''L2'' 2 TAIL_DROP) [Enqueue (1::nat) 0 0]"
  have in1: "s1 \<in> set (run_trace (LinkQueue_init ''L1'' 1 HEAD_DROP)
                          [Enqueue (1::nat) 0 0, Enqueue 2 1 0])"
    by (simp add: s1_def)
  have in2: "s2 \<in> set (run_trace (LinkQueue_init ''L2'' 2 TAIL_DROP) [Enqueue (1::nat) 0 0])"
    by (simp add: s2_def)
  have q1: "length (queue s1) = 1"
    unfolding s1_def sample_evicting_queue by simp
  have q2: "length (queue s2) = 1"
    unfolding s2_def sample_half_full_queue by simp
  have c1: "(1::int) \<le> 1" and c2: "(1::int) \<le> 2" by simp_all
  from queue_length_within_capacity [OF c1 in1] q1
  have r1: "get_size s1 \<le> 1 \<and> get_utilization s1 \<le> 1 \<and> get_size s1 = 1 \<and>
            get_utilization s1 = 1"
    by simp
  from queue_length_within_capacity [OF c2 in2] q2
  have r2: "get_size s2 = 1 \<and> get_utilization s2 = 1 / 2"
    by simp
  from r1 r2 show ?thesis
    unfolding s1_def s2_def by blast
qed


text \<open>
  C5. Under tail-drop, an enqueue on a full queue returns not-accepted, leaves the
  queue's items (and so its length) as they were, and increments \<open>packets_dropped\<close>
  by exactly 1.
\<close>

theorem tail_drop_on_full_queue:
  assumes "drop_policy q = TAIL_DROP"
    and "capacity q \<le> int (length (queue q))"
  shows "\<not> fst (enqueue rnd q pkt t) \<and>
         queue (snd (enqueue rnd q pkt t)) = queue q \<and>
         length (queue (snd (enqueue rnd q pkt t))) = length (queue q) \<and>
         packets_dropped (snd (enqueue rnd q pkt t)) = packets_dropped q + 1"
  using assms by (simp add: enqueue_def Let_def)

theorem tail_drop_on_full_queue_witness:
  "drop_policy full_tail_drop_queue = TAIL_DROP \<and>
   capacity full_tail_drop_queue = int (length (queue full_tail_drop_queue)) \<and>
   \<not> fst (enqueue 0 full_tail_drop_queue 2 6) \<and>
   queue (snd (enqueue 0 full_tail_drop_queue 2 6)) = [\<lparr> packet = 1, enqueue_time = 5 \<rparr>] \<and>
   packets_dropped (snd (enqueue 0 full_tail_drop_queue 2 6)) = 1"
  using tail_drop_on_full_queue [of full_tail_drop_queue 0 2 6]
  by (simp add: full_tail_drop_queue_eq)

text \<open>
  C6, as stated, fails in its last sentence. \<open>dequeue\<close> does not compare its clock with
  the enqueue time: a packet enqueued at time 5 and dequeued at time 3 comes back with
  the queuing delay \<open>-2\<close>.
\<close>

theorem dequeue_negative_delay:
  "fst (dequeue full_tail_drop_queue 3) = Some (1, - 2) \<and>
   \<not> (0 \<le> snd (the (fst (dequeue full_tail_drop_queue 3))))"
  by (simp add: full_tail_drop_queue_eq dequeue_def)

text \<open>
  C6, amended. On a queue that is not empty, \<open>dequeue\<close> removes the oldest item and
  returns its packet with the delay \<open>now - enqueue_time\<close>, adds that delay to the
  cumulative delay and increments the dequeue counter by 1; on an empty queue it returns
  the empty result and changes nothing. The returned delay is at least 0 exactly when
  \<open>now\<close> is not earlier than the item's enqueue time.
\<close>

theorem dequeue_result:
  "(queue q = [] \<longrightarrow> dequeue q now = (None, q)) \<and>
   (\<forall>item rest. queue q = item # rest \<longrightarrow>
      fst (dequeue q now) = Some (packet item, now - enqueue_time item) \<and>
      queue (snd (dequeue q now)) = rest \<and>
      total_queue_delay (snd (dequeue q now))
        = total_queue_delay q + (now - enqueue_time item) \<and>
      packets_dequeued (snd (dequeue q now)) = packets_dequeued q + 1 \<and>
      packets_enqueued (snd (dequeue q now)) = packets_enqueued q \<and>
      packets_dropped (snd (dequeue q now)) = packets_dropped q \<and>
      capacity (snd (dequeue q now)) = capacity q \<and>
      (0 \<le> snd (the (fst (dequeue q now))) \<longleftrightarrow> enqueue_time item \<le> now))"
  by (simp add: dequeue_def Let_def)

theorem dequeue_result_witness:
  "queue full_tail_drop_queue = [\<lparr> packet = 1, enqueue_time = 5 \<rparr>] \<and>
   fst (dequeue full_tail_drop_queue 12) = Some (1, 7) \<and>
   queue (snd (dequeue full_tail_drop_queue 12)) = [] \<and>
   total_queue_delay (snd (dequeue full_tail_drop_queue 12)) = 7 \<and>
   packets_dequeued (snd (dequeue full_tail_drop_queue 12)) = 1 \<and>
   dequeue (snd (dequeue full_tail_drop_queue 12)) 13
     = (None, snd (dequeue full_tail_drop_queue 12))"
  using dequeue_result [of full_tail_drop_queue 12]
        dequeue_result [of "snd (dequeue full_tail_drop_queue 12)" 13]
  by (simp add: full_tail_drop_queue_eq)

text \<open>
  C10. For a queue as created, before and after every call of any history of enqueues
  and dequeues, the length equals \<open>packets_enqueued - packets_dequeued -
  packets_dropped\<close>, whatever the drop policy and the capacity.
\<close>

theorem queue_conservation:
  assumes "s \<in> set (run_trace (LinkQueue_init lid cap pol) ops)"
  shows "get_size s = packets_enqueued s - packets_dequeued s - packets_dropped s"
proof -
  let ?q = "LinkQueue_init lid cap pol :: 'a LinkQueue"
  have "int (length (queue ?q)) = packets_enqueued ?q - packets_dequeued ?q - packets_dropped ?q"
    by (simp add: LinkQueue_init_def)
  from run_trace_conserved [OF this assms] show ?thesis
    by (simp add: get_size_def)
qed

theorem queue_conservation_witness:
  "get_size (run_ops (LinkQueue_init ''L1'' 1 RANDOM_DROP)
               [Enqueue (1::nat) 0 7, Enqueue 2 1 7, Dequeue 4, Dequeue 5]) = 0 \<and>
   packets_enqueued (run_ops (LinkQueue_init ''L1'' 1 RANDOM_DROP)
               [Enqueue (1::nat) 0 7, Enqueue 2 1 7, Dequeue 4, Dequeue 5]) = 2 \<and>
   packets_dequeued (run_ops (LinkQueue_init ''L1'' 1 RANDOM_DROP)
               [Enqueue (1::nat) 0 7, Enqueue 2 1 7, Dequeue 4, Dequeue 5]) = 1 \<and>
   packets_dropped (run_ops (LinkQueue_init ''L1'' 1 RANDOM_DROP)
               [Enqueue (1::nat) 0 7, Enqueue 2 1 7, Dequeue 4, Dequeue 5]) = 1"
  using queue_conservation
    [of "run_ops (LinkQueue_init ''L1'' 1 RANDOM_DROP)
           [Enqueue (1::nat) 0 7, Enqueue 2 1 7, Dequeue 4, Dequeue 5]"
        "''L1''" 1 RANDOM_DROP "[Enqueue (1::nat) 0 7, Enqueue 2 1 7, Dequeue 4, Dequeue 5]"]
  by (simp add: enqueue_def dequeue_def LinkQueue_init_def randint_def pop_at_def get_size_def)


section \<open>Properties of the router\<close>

lemma fold_path_cost:
  "list_all2 (link_on_hop g) hs lks \<Longrightarrow>
   fold (\<lambda>(node_a, node_b) total_cost.
           case get_edge_data g node_a node_b of
             None \<Rightarrow> total_cost
           | Some edge_data \<Rightarrow>
               (case weight edge_data of
                  None \<Rightarrow> total_cost
                | Some w \<Rightarrow> total_cost + w)) hs acc
     = acc + sum_list (map fst lks)"
proof (induction arbitrary: acc rule: list_all2_induct)
  case Nil
  then show ?case by simp
next
  case (Cons h hs lk lks)
  from Cons.hyps(1) show ?case
    by (cases h) (auto simp: link_on_hop_def Cons.IH split: option.splits)
qed

lemma fold_bottleneck:
  "list_all2 (link_on_hop g) hs lks \<Longrightarrow> lks \<noteq> [] \<Longrightarrow>
   fold (\<lambda>(node_a, node_b) min_bandwidth.
           case get_edge_data g node_a node_b of
             None \<Rightarrow> min_bandwidth
           | Some edge_data \<Rightarrow>
               (case bandwidth edge_data of
                  None \<Rightarrow> min_bandwidth
                | Some bw \<Rightarrow>
                    (case min_bandwidth of
                       None \<Rightarrow> Some bw
                     | Some m \<Rightarrow> Some (min m bw)))) hs mb
     = Some (case mb of None \<Rightarrow> Min (set (map snd lks))
                      | Some m \<Rightarrow> min m (Min (set (map snd lks))))"
proof (induction arbitrary: mb rule: list_all2_induct)
  case Nil
  then show ?case by simp
next
  case (Cons h hs lk lks)
  show ?case
  proof (cases "lks = []")
    case True
    with Cons.hyps(2) have "hs = []" by simp
    with True Cons.hyps(1) show ?thesis
      by (cases h) (auto simp: link_on_hop_def split: option.splits)
  next
    case False
    from Cons.IH [OF False] Cons.hyps(1) False show ?thesis
      by (cases h) (auto simp: link_on_hop_def min.assoc split: option.splits)
  qed
qed

lemma length_hops: "length (hops pth) = length pth - 1"
  by (simp add: hops_def)

text \<open>
  C7. For a path resolved over links of given latencies and bandwidths, the router
  reports as total latency the sum of the latencies, as bottleneck bandwidth the least of
  the bandwidths, and as throughput the bottleneck bandwidth.
\<close>

theorem path_info_of_resolved_path:
  assumes "resolved_over g pth lks"
  shows "get_path_cost g pth = sum_list (map fst lks) \<and>
         get_bottleneck_bandwidth g pth = Min (set (map snd lks)) \<and>
         pd_total_latency (get_path_info g pth nm) = sum_list (map fst lks) \<and>
         pd_bottleneck_bandwidth (get_path_info g pth nm) = Min (set (map snd lks)) \<and>
         pd_throughput (get_path_info g pth nm)
           = pd_bottleneck_bandwidth (get_path_info g pth nm)"
proof -
  from assms have len: "2 \<le> length pth" and all: "list_all2 (link_on_hop g) (hops pth) lks"
    by (simp_all add: resolved_over_def)
  from all have "length lks = length (hops pth)"
    by (simp add: list_all2_lengthD)
  with len have ne: "lks \<noteq> []"
    by (auto simp: length_hops)
  have cost: "get_path_cost g pth = sum_list (map fst lks)"
    using len by (simp add: get_path_cost_def fold_path_cost [OF all])
  have bw: "get_bottleneck_bandwidth g pth = Min (set (map snd lks))"
    using len by (simp add: get_bottleneck_bandwidth_def fold_bottleneck [OF all ne])
  show ?thesis
    using len cost bw by (simp add: get_path_info_def Let_def)
qed

theorem path_info_of_resolved_path_witness:
  "resolved_over chain_graph [''A'', ''B'', ''C''] [(5, 100), (7, 40)] \<and>
   pd_total_latency (get_path_info chain_graph [''A'', ''B'', ''C''] None) = 12 \<and>
   pd_bottleneck_bandwidth (get_path_info chain_graph [''A'', ''B'', ''C''] None) = 40 \<and>
   pd_throughput (get_path_info chain_graph [''A'', ''B'', ''C''] None) = 40"
proof -
  have r: "resolved_over chain_graph [''A'', ''B'', ''C''] [(5, 100), (7, 40)]"
    by (simp add: resolved_over_def hops_def link_on_hop_def get_edge_data_def chain_graph_def)
  from path_info_of_resolved_path [OF r, of None] r show ?thesis
    by simp
qed

text \<open>
  C8. \<open>compute_shortest_path\<close> raises \<open>ValueError\<close> when an end node is not in the
  graph or when the two are the same node. When both are in the graph and differ, the
  metric is one of the two the router knows, and no chain of edges joins them, it returns
  \<open>None\<close> and raises nothing; this rests on the library raising \<open>NetworkXNoPath\<close>
  for such a pair.
\<close>

theorem compute_shortest_path_outcomes:
  "(start_node_id \<notin> g_nodes g \<or> end_node_id \<notin> g_nodes g \<or> start_node_id = end_node_id
      \<longrightarrow> compute_shortest_path nx g start_node_id end_node_id metric = Inl ValueError) \<and>
   (nx_no_path_contract nx \<and> start_node_id \<in> g_nodes g \<and> end_node_id \<in> g_nodes g \<and>
    start_node_id \<noteq> end_node_id \<and> \<not> joined g start_node_id end_node_id \<and>
    (metric = ''latency'' \<or> metric = ''hops'')
      \<longrightarrow> compute_shortest_path nx g start_node_id end_node_id metric = Inr None)"
proof (intro conjI impI)
  assume "start_node_id \<notin> g_nodes g \<or> end_node_id \<notin> g_nodes g \<or> start_node_id = end_node_id"
  then show "compute_shortest_path nx g start_node_id end_node_id metric = Inl ValueError"
    by (auto simp: compute_shortest_path_def)
next
  assume a: "nx_no_path_contract nx \<and> start_node_id \<in> g_nodes g \<and> end_node_id \<in> g_nodes g \<and>
    start_node_id \<noteq> end_node_id \<and> \<not> joined g start_node_id end_node_id \<and>
    (metric = ''latency'' \<or> metric = ''hops'')"
  then have raised: "nx g start_node_id end_node_id wt = Inl NetworkXNoPath" for wt
    by (simp add: nx_no_path_contract_def)
  from a have "metric = ''latency'' \<or> metric = ''hops''" by simp
  then show "compute_shortest_path nx g start_node_id end_node_id metric = Inr None"
  proof
    assume "metric = ''latency''"
    with a raised [of "Some ''weight''"] show ?thesis
      by (simp add: compute_shortest_path_def)
  next
    assume "metric = ''hops''"
    with a raised [of None] show ?thesis
      by (simp add: compute_shortest_path_def)
  qed
qed

lemma sample_nx_contract: "nx_no_path_contract sample_nx"
  by (simp add: nx_no_path_contract_def sample_nx_def)

lemma split_graph_not_joined: "\<not> joined split_graph ''N1'' ''N2''"
  by (simp add: joined_def adjacent_def split_graph_def get_edge_data_def)

theorem compute_shortest_path_outcomes_witness:
  "compute_shortest_path sample_nx split_graph ''N1'' ''N3'' ''latency'' = Inl ValueError \<and>
   compute_shortest_path sample_nx split_graph ''N1'' ''N1'' ''latency'' = Inl ValueError \<and>
   nx_no_path_contract sample_nx \<and> \<not> joined split_graph ''N1'' ''N2'' \<and>
   compute_shortest_path sample_nx split_graph ''N1'' ''N2'' ''latency'' = Inr None"
  using compute_shortest_path_outcomes [of "''N1''" split_graph "''N3''" sample_nx "''latency''"]
        compute_shortest_path_outcomes [of "''N1''" split_graph "''N1''" sample_nx "''latency''"]
        compute_shortest_path_outcomes [of "''N1''" split_graph "''N2''" sample_nx "''latency''"]
        sample_nx_contract split_graph_not_joined
  by (simp add: split_graph_def)

text \<open>
  C9. \<open>create_packet\<close> with a source or a destination that is not a node, or with the
  source as destination, returns \<open>None\<close> and leaves the whole state as it was: no
  packet, no counter and no metrics record changes.
\<close>

theorem create_packet_invalid_request:
  assumes "source_id \<notin> dom (nodes (network_manager w)) \<or>
           dest_id \<notin> dom (nodes (network_manager w)) \<or> source_id = dest_id"
  shows "create_packet nx w source_id dest_id sz = (Inr None, w)"
  using assms by (auto simp: create_packet_def)

theorem create_packet_invalid_request_witness:
  "create_packet sample_nx sample_world ''N1'' ''N9'' 1024 = (Inr None, sample_world) \<and>
   create_packet sample_nx sample_world ''N9'' ''N1'' 1024 = (Inr None, sample_world) \<and>
   create_packet sample_nx sample_world ''N1'' ''N1'' 1024 = (Inr None, sample_world)"
  using create_packet_invalid_request [of "''N1''" sample_world "''N9''" sample_nx 1024]
        create_packet_invalid_request [of "''N9''" sample_world "''N1''" sample_nx 1024]
        create_packet_invalid_request [of "''N1''" sample_world "''N1''" sample_nx 1024]
  by (simp add: sample_world_def)


section \<open>Properties of the congestion controller\<close>

lemma record_drop_sel:
  "network_manager (record_drop w a b c) = network_manager w"
  "congestion_windows (congestion_controller (record_drop w a b c))
     = congestion_windows (congestion_controller w)"
  "link_queues (congestion_controller (record_drop w a b c))
     = link_queues (congestion_controller w)"
  "enable_tcp_congestion (congestion_controller (record_drop w a b c))
     = enable_tcp_congestion (congestion_controller w)"
  "heap (record_drop w a b c) = heap w"
  "active_packets (record_drop w a b c) = active_packets w"
  by (simp_all add: record_drop_def Let_def)

lemma record_congestion_event_sel:
  "network_manager (record_congestion_event w a b c) = network_manager w"
  "congestion_windows (congestion_controller (record_congestion_event w a b c))
     = congestion_windows (congestion_controller w)"
  "link_queues (congestion_controller (record_congestion_event w a b c))
     = link_queues (congestion_controller w)"
  "enable_tcp_congestion (congestion_controller (record_congestion_event w a b c))
     = enable_tcp_congestion (congestion_controller w)"
  "heap (record_congestion_event w a b c) = heap w"
  "active_packets (record_congestion_event w a b c) = active_packets w"
  by (simp_all add: record_congestion_event_def Let_def)

lemma handle_packet_drop_sel:
  "network_manager (handle_packet_drop w lid) = network_manager w"
  "link_queues (congestion_controller (handle_packet_drop w lid))
     = link_queues (congestion_controller w)"
  "enable_tcp_congestion (congestion_controller (handle_packet_drop w lid))
     = enable_tcp_congestion (congestion_controller w)"
  "heap (handle_packet_drop w lid) = heap w"
  "active_packets (handle_packet_drop w lid) = active_packets w"
  by (simp_all add: handle_packet_drop_def Let_def record_congestion_event_sel
        split: option.split)


lemma handle_packet_success_sel:
  "network_manager (snd (handle_packet_success w lid)) = network_manager w"
  "link_queues (congestion_controller (snd (handle_packet_success w lid)))
     = link_queues (congestion_controller w)"
  "enable_tcp_congestion (congestion_controller (snd (handle_packet_success w lid)))
     = enable_tcp_congestion (congestion_controller w)"
  "heap (snd (handle_packet_success w lid)) = heap w"
  "active_packets (snd (handle_packet_success w lid)) = active_packets w"
  by (simp_all add: handle_packet_success_def Let_def split: option.split)



lemma update_queue_color_sel:
  "l_id (update_queue_color l) = l_id l"
  "l_queue_size (update_queue_color l) = l_queue_size l"
  "l_latency (update_queue_color l) = l_latency l"
  by (simp_all add: update_queue_color_def Let_def)





lemmas controller_sel =
  record_drop_sel record_congestion_event_sel handle_packet_drop_sel
  handle_packet_success_sel update_queue_color_sel

lemma snd_reraise:
  "snd (case x of (Inl e, w3) \<Rightarrow> (Inl e, w3) | (Inr u, w3) \<Rightarrow> (Inr a, w3)) = snd x"
  by (cases x; cases "fst x") auto


lemma process_packet_on_link_state:
  "snd (process_packet_on_link rnd w pkt link t) =
     (case link_queues (congestion_controller w) (l_id link) of
        None \<Rightarrow> w
      | Some q \<Rightarrow>
          (let q1 = snd (enqueue rnd q pkt t);
               c = congestion_controller w;
               w1 = w\<lparr> congestion_controller :=
                          c\<lparr> link_queues := (link_queues c)(l_id link \<mapsto> q1) \<rparr> \<rparr>
           in if \<not> fst (enqueue rnd q pkt t)
              then
                (let c1 = congestion_controller w1;
                     w2 = w1\<lparr> congestion_controller :=
                                 c1\<lparr> cc_total_packets_dropped := cc_total_packets_dropped c1 + 1 \<rparr> \<rparr>;
                     w3 = record_drop w2 (pkt_id (heap w2 pkt)) (l_id link) t;
                     w4 = w3\<lparr> network_manager :=
                                 store_link (update_queue_color link) (network_manager w3) \<rparr>
                 in if enable_tcp_congestion (congestion_controller w4)
                    then handle_packet_drop w4 (l_id link) else w4)
              else
                (let w2 = w1\<lparr> network_manager :=
                                 store_link (update_queue_color (link\<lparr> l_current_queue := get_size q1 \<rparr>))
                                   (network_manager w1) \<rparr>
                 in if enable_tcp_congestion (congestion_controller w2)
                    then snd (handle_packet_success w2 (l_id link)) else w2)))"
  by (simp add: process_packet_on_link_def Let_def snd_reraise
        split: option.split prod.split)

lemma process_packet_on_link_frame:
  "enable_tcp_congestion (congestion_controller (snd (process_packet_on_link rnd w pkt link t)))
     = enable_tcp_congestion (congestion_controller w)"
  "heap (snd (process_packet_on_link rnd w pkt link t)) = heap w"
  "active_packets (snd (process_packet_on_link rnd w pkt link t)) = active_packets w"
  by (simp_all add: process_packet_on_link_state Let_def controller_sel split: option.split)


























section \<open>Properties of the packet life cycle\<close>

lemma move_to_next_link_state:
  "state (snd (move_to_next_link p t)) = (if fst (move_to_next_link p t) then DELIVERED else IN_TRANSIT)"
  by (simp add: move_to_next_link_def Let_def)

lemma move_to_next_link_id: "pkt_id (snd (move_to_next_link p t)) = pkt_id p"
  by (simp add: move_to_next_link_def Let_def)

lemma add_packet_sel:
  "heap (add_packet w a pa pb lat) = heap w"
  "active_packets (add_packet w a pa pb lat) = active_packets w"
  by (simp_all add: add_packet_def Let_def)

lemma remove_packet_sel:
  "heap (remove_packet w pid) = heap w"
  "active_packets (remove_packet w pid) = active_packets w"
  by (simp_all add: remove_packet_def Let_def)

lemma drop_packet_heap:
  "heap (drop_packet w a) = (heap w)(a := (heap w a)\<lparr> state := DROPPED \<rparr>)"
  by (simp add: drop_packet_def Let_def remove_packet_sel mark_dropped_def)

lemma drop_packet_active:
  "active_packets (drop_packet w a) = (active_packets w)(pkt_id (heap w a) := None)"
  by (simp add: drop_packet_def Let_def remove_packet_sel mark_dropped_def)

lemma process_packet_on_link_keeps:
  assumes "process_packet_on_link rnd w pkt link t = (r, w1)"
  shows "heap w1 = heap w \<and> active_packets w1 = active_packets w"
  using process_packet_on_link_frame(2,3) [of rnd w pkt link t] assms by simp

lemma start_packet_animation_cases:
  assumes "start_packet_animation rnd w a = (r, w')"
  shows "(r = Inr True \<longrightarrow> heap w' = (heap w)(a := heap w' a) \<and> state (heap w' a) = IN_TRANSIT) \<and>
         (r = Inr False \<longrightarrow> heap w' = (heap w)(a := heap w' a) \<and> state (heap w' a) = DROPPED \<and>
            active_packets w' (pkt_id (heap w a)) = None) \<and>
         (\<forall>e. r = Inl e \<longrightarrow> heap w' = heap w)"
proof (cases "length (path (heap w a)) < 2")
  case True
  with assms show ?thesis
    by (auto simp: start_packet_animation_def drop_packet_heap drop_packet_active)
next
  case False
  show ?thesis
  proof (cases "get_link_by_nodes (network_manager w) (path (heap w a) ! 0) (path (heap w a) ! 1)")
    case None
    with False assms show ?thesis
      by (auto simp: start_packet_animation_def Let_def drop_packet_heap drop_packet_active)
  next
    case (Some link)
    obtain r1 w1 where p: "process_packet_on_link rnd w a link (sim_time (animator_worker w)) = (r1, w1)"
      by (cases "process_packet_on_link rnd w a link (sim_time (animator_worker w))")
    from process_packet_on_link_keeps [OF p]
    have k: "heap w1 = heap w" "active_packets w1 = active_packets w" by simp_all
    from False Some p assms k show ?thesis
      by (auto simp: start_packet_animation_def Let_def drop_packet_heap drop_packet_active
            add_packet_sel split: sum.splits bool.splits option.splits)
  qed
qed


lemma advance_packet_cases:
  assumes "advance_packet rnd w a = (r, w')"
  shows "(r = Inr True \<longrightarrow> heap w' = (heap w)(a := heap w' a) \<and> state (heap w' a) = DELIVERED \<and>
            active_packets w' (pkt_id (heap w a)) = None) \<and>
         (r = Inr False \<longrightarrow> heap w' = (heap w)(a := heap w' a) \<and>
            (state (heap w' a) = IN_TRANSIT \<or>
             state (heap w' a) = DROPPED \<and> active_packets w' (pkt_id (heap w a)) = None)) \<and>
         (\<forall>e. r = Inl e \<longrightarrow> heap w' = (heap w)(a := heap w' a) \<and>
            (state (heap w' a) = IN_TRANSIT \<or> state (heap w' a) = DELIVERED))"
proof -
  let ?t = "sim_time (animator_worker w)"
  obtain reached p1 where m: "move_to_next_link (heap w a) ?t = (reached, p1)"
    by (cases "move_to_next_link (heap w a) ?t")
  from move_to_next_link_state [of "heap w a" ?t] move_to_next_link_id [of "heap w a" ?t] m
  have st: "state p1 = (if reached then DELIVERED else IN_TRANSIT)" and id: "pkt_id p1 = pkt_id (heap w a)"
    by simp_all
  let ?w1 = "w\<lparr> heap := (heap w)(a := p1) \<rparr>"
  show ?thesis
  proof (cases reached)
    case True
    obtain r2 le1 where d: "record_packet_delivery (latency_engine w) (network_manager w)
                              (pkt_id (heap w a)) ?t = (r2, le1)"
      by (cases "record_packet_delivery (latency_engine w) (network_manager w) (pkt_id (heap w a)) ?t")
    from assms m True d id show ?thesis
      by (auto simp: advance_packet_def Let_def mark_delivered_def split: sum.splits)
  next
    case False
    note nr = False
    show ?thesis
    proof (cases "path_index p1 + 1 < length (path p1)")
      case False
      with assms m nr st show ?thesis
        by (auto simp: advance_packet_def Let_def)
    next
      case True
      note lt = True
      show ?thesis
      proof (cases "get_link_by_nodes (network_manager w) (path p1 ! path_index p1)
                      (path p1 ! (path_index p1 + 1))")
        case None
        with assms m nr st lt show ?thesis
          by (auto simp: advance_packet_def Let_def)
      next
        case (Some link)
        obtain r1 w2 where p: "process_packet_on_link rnd ?w1 a link ?t = (r1, w2)"
          by (cases "process_packet_on_link rnd ?w1 a link ?t")
        from process_packet_on_link_keeps [OF p]
        have k: "heap w2 = (heap w)(a := p1)" "active_packets w2 = active_packets w" by simp_all
        from assms m nr st lt Some p k id show ?thesis
          by (auto simp: advance_packet_def Let_def drop_packet_heap drop_packet_active
                add_packet_sel split: sum.splits bool.splits option.splits)
      qed
    qed
  qed
qed

lemma sample_packet_eq:
  "sample_packet =
     \<lparr> pkt_id = ''PKT0001'', source_node_id = ''N1'', destination_node_id = ''N2'',
       creation_time = 0, sent_time = 0, delivery_time = 0, pkt_size = 1024,
       state = QUEUED, path = [''N1'', ''N2''], path_index = 0, current_node_id = ''N1'',
       current_link_index = 0, link_start_time = 0, link_latency = 0 \<rparr>"
  by (simp add: sample_packet_def Packet_init_def)

text \<open>
  C4, as stated, fails. The operations do not look at the state they find: a delivered
  packet is made DROPPED by \<open>mark_dropped\<close>, and a dropped packet is made DELIVERED by
  \<open>mark_delivered\<close> and by \<open>move_to_next_link\<close>.
\<close>

theorem terminal_state_overwritten:
  "state (mark_delivered sample_packet 5) = DELIVERED \<and>
   state (mark_dropped (mark_delivered sample_packet 5)) = DROPPED \<and>
   state (mark_dropped sample_packet) = DROPPED \<and>
   state (mark_delivered (mark_dropped sample_packet) 5) = DELIVERED \<and>
   state (snd (move_to_next_link (mark_dropped sample_packet) 5)) = DELIVERED"
  by (simp add: sample_packet_eq mark_delivered_def mark_dropped_def move_to_next_link_def)

text \<open>
  C4, amended. A packet is in exactly one of the four states. No operation puts a packet
  into QUEUED: \<open>mark_delivered\<close> leaves it DELIVERED, \<open>mark_dropped\<close> and
  \<open>drop_packet\<close> leave it DROPPED, \<open>move_to_next_link\<close> leaves it DELIVERED when it
  returns true and IN\_TRANSIT otherwise, \<open>start_packet_animation\<close> leaves it
  IN\_TRANSIT when it returns true and DROPPED when it returns false, and
  \<open>advance_packet\<close> leaves it DELIVERED when it returns true and IN\_TRANSIT or
  DROPPED when it returns false. None of them tests the state it finds. A packet that
  the manager delivers or drops leaves \<open>active_packets\<close> at that moment, and no packet
  but the one operated on is changed.
\<close>

theorem packet_state_transitions:
  "(state p = QUEUED \<or> state p = IN_TRANSIT \<or> state p = DELIVERED \<or> state p = DROPPED) \<and>
   state (mark_delivered p t) = DELIVERED \<and>
   state (mark_dropped p) = DROPPED \<and>
   state (snd (move_to_next_link p t))
     = (if fst (move_to_next_link p t) then DELIVERED else IN_TRANSIT) \<and>
   heap (drop_packet w a) = (heap w)(a := heap (drop_packet w a) a) \<and>
   state (heap (drop_packet w a) a) = DROPPED \<and>
   active_packets (drop_packet w a) (pkt_id (heap w a)) = None \<and>
   heap (snd (start_packet_animation rnd w a))
     = (heap w)(a := heap (snd (start_packet_animation rnd w a)) a) \<and>
   (case fst (start_packet_animation rnd w a) of
      Inr started \<Rightarrow>
        if started then state (heap (snd (start_packet_animation rnd w a)) a) = IN_TRANSIT
        else state (heap (snd (start_packet_animation rnd w a)) a) = DROPPED \<and>
             active_packets (snd (start_packet_animation rnd w a)) (pkt_id (heap w a)) = None
    | Inl e \<Rightarrow> heap (snd (start_packet_animation rnd w a)) = heap w) \<and>
   heap (snd (advance_packet rnd w a))
     = (heap w)(a := heap (snd (advance_packet rnd w a)) a) \<and>
   (case fst (advance_packet rnd w a) of
      Inr reached \<Rightarrow>
        if reached
        then state (heap (snd (advance_packet rnd w a)) a) = DELIVERED \<and>
             active_packets (snd (advance_packet rnd w a)) (pkt_id (heap w a)) = None
        else state (heap (snd (advance_packet rnd w a)) a) = IN_TRANSIT \<or>
             state (heap (snd (advance_packet rnd w a)) a) = DROPPED \<and>
             active_packets (snd (advance_packet rnd w a)) (pkt_id (heap w a)) = None
    | Inl e \<Rightarrow>
        state (heap (snd (advance_packet rnd w a)) a) = IN_TRANSIT \<or>
        state (heap (snd (advance_packet rnd w a)) a) = DELIVERED)"
proof -
  have one: "state p = QUEUED \<or> state p = IN_TRANSIT \<or> state p = DELIVERED \<or> state p = DROPPED"
    by (cases "state p") simp_all
  obtain r1 w1 where s: "start_packet_animation rnd w a = (r1, w1)"
    by (cases "start_packet_animation rnd w a")
  obtain r2 w2 where ad: "advance_packet rnd w a = (r2, w2)"
    by (cases "advance_packet rnd w a")
  have start: "heap w1 = (heap w)(a := heap w1 a) \<and>
     (case r1 of
        Inr started \<Rightarrow>
          if started then state (heap w1 a) = IN_TRANSIT
          else state (heap w1 a) = DROPPED \<and> active_packets w1 (pkt_id (heap w a)) = None
      | Inl e \<Rightarrow> heap w1 = heap w)"
    using start_packet_animation_cases [OF s]
    by (cases r1) (auto split: bool.splits)
  have adv: "heap w2 = (heap w)(a := heap w2 a) \<and>
     (case r2 of
        Inr reached \<Rightarrow>
          if reached
          then state (heap w2 a) = DELIVERED \<and> active_packets w2 (pkt_id (heap w a)) = None
          else state (heap w2 a) = IN_TRANSIT \<or>
               state (heap w2 a) = DROPPED \<and> active_packets w2 (pkt_id (heap w a)) = None
      | Inl e \<Rightarrow> state (heap w2 a) = IN_TRANSIT \<or> state (heap w2 a) = DELIVERED)"
    using advance_packet_cases [OF ad]
    by (cases r2) (auto split: bool.splits)
  have drp: "heap (drop_packet w a) = (heap w)(a := heap (drop_packet w a) a) \<and>
             state (heap (drop_packet w a) a) = DROPPED \<and>
             active_packets (drop_packet w a) (pkt_id (heap w a)) = None"
    by (simp add: drop_packet_heap drop_packet_active)
  have pk: "state (mark_delivered p t) = DELIVERED \<and> state (mark_dropped p) = DROPPED"
    by (simp add: mark_delivered_def mark_dropped_def)
  have start':
    "heap (snd (start_packet_animation rnd w a))
       = (heap w)(a := heap (snd (start_packet_animation rnd w a)) a) \<and>
     (case fst (start_packet_animation rnd w a) of
        Inr started \<Rightarrow>
          if started then state (heap (snd (start_packet_animation rnd w a)) a) = IN_TRANSIT
          else state (heap (snd (start_packet_animation rnd w a)) a) = DROPPED \<and>
               active_packets (snd (start_packet_animation rnd w a)) (pkt_id (heap w a)) = None
      | Inl e \<Rightarrow> heap (snd (start_packet_animation rnd w a)) = heap w)"
    unfolding s fst_conv snd_conv by (rule start)
  have adv':
    "heap (snd (advance_packet rnd w a))
       = (heap w)(a := heap (snd (advance_packet rnd w a)) a) \<and>
     (case fst (advance_packet rnd w a) of
        Inr reached \<Rightarrow>
          if reached
          then state (heap (snd (advance_packet rnd w a)) a) = DELIVERED \<and>
               active_packets (snd (advance_packet rnd w a)) (pkt_id (heap w a)) = None
          else state (heap (snd (advance_packet rnd w a)) a) = IN_TRANSIT \<or>
               state (heap (snd (advance_packet rnd w a)) a) = DROPPED \<and>
               active_packets (snd (advance_packet rnd w a)) (pkt_id (heap w a)) = None
      | Inl e \<Rightarrow>
          state (heap (snd (advance_packet rnd w a)) a) = IN_TRANSIT \<or>
          state (heap (snd (advance_packet rnd w a)) a) = DELIVERED)"
    unfolding ad fst_conv snd_conv by (rule adv)
  from one pk move_to_next_link_state [of p t] drp start' adv' show ?thesis
    by blast
qed



lemma sample_start:
  "fst (start_packet_animation 0 sample_world 0) = Inr True \<and>
   heap sample_started 0 = sample_packet\<lparr> state := IN_TRANSIT, link_latency := 5 \<rparr> \<and>
   sim_time (animator_worker sample_started) = 0 \<and>
   packet_metrics (latency_engine sample_started) = Map.empty"
  by (simp add: sample_started_def start_packet_animation_def sample_world_def sample_packet_eq
        sample_link_def get_link_by_nodes_def process_packet_on_link_def Let_def
        record_packet_sent_def add_packet_def)

lemma sample_advance:
  "fst (advance_packet 0 sample_started 0) = Inr True"
proof -
  have m: "move_to_next_link (heap sample_started 0) 0 =
             (True, (heap sample_started 0)\<lparr> path_index := 1, current_node_id := ''N2'',
                 current_link_index := 0, link_start_time := 0,
                 state := DELIVERED, delivery_time := 0 \<rparr>)"
    using sample_start by (simp add: move_to_next_link_def sample_packet_eq Let_def)
  show ?thesis
    using sample_start m
    by (simp add: advance_packet_def Let_def record_packet_delivery_def mark_delivered_def)
qed

theorem packet_state_transitions_witness:
  "fst (start_packet_animation 0 sample_world 0) = Inr True \<and>
   state (heap sample_started 0) = IN_TRANSIT \<and>
   fst (advance_packet 0 sample_started 0) = Inr True \<and>
   state (heap (snd (advance_packet 0 sample_started 0)) 0) = DELIVERED \<and>
   active_packets (snd (advance_packet 0 sample_started 0)) (pkt_id (heap sample_started 0)) = None \<and>
   state (heap (drop_packet sample_started 0) 0) = DROPPED"
  using packet_state_transitions [of sample_packet 0 sample_world 0 0]
        packet_state_transitions [of sample_packet 0 sample_started 0 0]
        sample_start sample_advance
  by (simp add: sample_started_def)

end
